theory Spec2Isabelle
  imports Main
begin

section \<open>Settings (shared module)\<close>

text \<open>
  The type \<open>Target\<close> is the union of the four string literals
  \<^verbatim>\<open>'download' | 'tab' | 'clipboard' | 'upload-s3'\<close>.
\<close>

datatype Target = Download | Tab | Clipboard | UploadS3

fun target_string :: "Target \<Rightarrow> string" where
  "target_string Download = ''download''"
| "target_string Tab = ''tab''"
| "target_string Clipboard = ''clipboard''"
| "target_string UploadS3 = ''upload-s3''"

datatype CaptureArea = CaptureArea | CaptureViewport | CaptureElement

text \<open>
  The interface \<open>Settings\<close>: every field is optional, \<open>None\<close> stands for a key that is
  absent (reads as \<^verbatim>\<open>undefined\<close>). \<open>Required<Settings>\<close> is the same structure with
  every field present, so one record type carries both and completeness is a predicate.
\<close>

record Settings =
  minifySvg :: "bool option"
  inlineResources :: "bool option"
  prettyPrintSvg :: "bool option"
  keepLinks :: "bool option"
  target :: "Target option"
  s3Bucket :: "string option"
  s3Config :: "string option"

definition or_default :: "'a \<Rightarrow> 'a option \<Rightarrow> 'a option" where
  \<comment> \<open>a destructuring default: taken exactly when the property is undefined\<close>
  "or_default d v = (case v of None \<Rightarrow> Some d | Some x \<Rightarrow> Some x)"

definition applyDefaults :: "Settings \<Rightarrow> Settings" where
  "applyDefaults s =
     \<lparr> minifySvg = or_default False (minifySvg s),
       inlineResources = or_default True (inlineResources s),
       prettyPrintSvg = or_default True (prettyPrintSvg s),
       keepLinks = or_default True (keepLinks s),
       target = or_default Download (target s),
       s3Bucket = or_default [] (s3Bucket s),
       s3Config = or_default [] (s3Config s) \<rparr>"

definition is_complete :: "Settings \<Rightarrow> bool" where
  "is_complete s \<longleftrightarrow>
     minifySvg s \<noteq> None \<and> inlineResources s \<noteq> None \<and> prettyPrintSvg s \<noteq> None \<and>
     keepLinks s \<noteq> None \<and> target s \<noteq> None \<and> s3Bucket s \<noteq> None \<and> s3Config s \<noteq> None"

section \<open>Thrown values, completions of asynchronous calls, and the page\<close>

text \<open>
  A value that a \<^verbatim>\<open>throw\<close> or a rejected promise carries: an error object with its
  \<open>name\<close> and \<open>message\<close>, or \<^verbatim>\<open>null\<close>/\<^verbatim>\<open>undefined\<close>, which have neither.
\<close>

datatype js_value = Nullish | ErrorObject (error_name: string) (error_message: string)

definition Error :: "string \<Rightarrow> js_value" where
  "Error msg = ErrorObject ''Error'' msg"

definition TypeError :: "string \<Rightarrow> js_value" where
  "TypeError msg = ErrorObject ''TypeError'' msg"

definition AbortError :: "string \<Rightarrow> js_value" where
  \<comment> \<open>Modelled from the spec: the class \<open>AbortError\<close> of module \<open>util\<close>, which is not among
      the sources. It is the cancellation signal that the selectors raise; the
      orchestrator recognises it by the name \<open>AbortError\<close>.\<close>
  "AbortError msg = ErrorObject ''AbortError'' msg"

text \<open>
  How an awaited call ends: it returns, it throws (the promise rejects), or it never
  settles. Nothing in the program imposes a timeout, so the last case is a value.
\<close>

datatype 'a completion = Normal 'a | Throw js_value | Pending

datatype effect =
    ConsoleLog string
  | ConsoleError js_value
  | Alert string
  | SendMessage string "string option"
  | MinifySvg string
  | FormatXML string
  | SaveAs string string
  | ClipboardWriteText string
  | CreateObjectURL string
  | WindowOpen string string string
  | PutObject string string string string string

datatype node = PageNode nat | AreaOverlay | ElementOverlay

record page =
  body :: "node list"
  cursor :: string
  trace :: "effect list"

type_synonym 'a io = "page \<Rightarrow> 'a completion \<times> page"

definition ret :: "'a \<Rightarrow> 'a io" where
  "ret v = (\<lambda>w. (Normal v, w))"

definition throw :: "js_value \<Rightarrow> 'a io" where
  "throw e = (\<lambda>w. (Throw e, w))"

definition await :: "'a completion \<Rightarrow> 'a io" where
  "await c = (\<lambda>w. (c, w))"

definition bind_io :: "'a io \<Rightarrow> ('a \<Rightarrow> 'b io) \<Rightarrow> 'b io" where
  "bind_io m f = (\<lambda>w. case m w of
       (Normal v, w1) \<Rightarrow> f v w1
     | (Throw e, w1) \<Rightarrow> (Throw e, w1)
     | (Pending, w1) \<Rightarrow> (Pending, w1))"

definition try_catch :: "'a io \<Rightarrow> (js_value \<Rightarrow> 'a io) \<Rightarrow> 'a io" where
  "try_catch m handler = (\<lambda>w. case m w of
       (Throw e, w1) \<Rightarrow> handler e w1
     | (Normal v, w1) \<Rightarrow> (Normal v, w1)
     | (Pending, w1) \<Rightarrow> (Pending, w1))"

definition try_finally :: "'a io \<Rightarrow> unit io \<Rightarrow> 'a io" where
  \<comment> \<open>the finalizer runs when the block has ended, however it ended; a block that never
      ends never reaches it; a finalizer that throws replaces the block's outcome\<close>
  "try_finally m finalizer = (\<lambda>w. case m w of
       (Pending, w1) \<Rightarrow> (Pending, w1)
     | (r, w1) \<Rightarrow> (case finalizer w1 of
           (Normal u, w2) \<Rightarrow> (r, w2)
         | (Throw e, w2) \<Rightarrow> (Throw e, w2)
         | (Pending, w2) \<Rightarrow> (Pending, w2)))"

definition emit :: "effect \<Rightarrow> unit io" where
  "emit e = (\<lambda>w. (Normal (), w\<lparr>trace := trace w @ [e]\<rparr>))"

definition append_child :: "node \<Rightarrow> unit io" where
  "append_child n = (\<lambda>w. (Normal (), w\<lparr>body := body w @ [n]\<rparr>))"

definition remove_node :: "node \<Rightarrow> unit io" where
  "remove_node n = (\<lambda>w. (Normal (), w\<lparr>body := filter (\<lambda>c. c \<noteq> n) (body w)\<rparr>))"

definition set_cursor :: "string \<Rightarrow> unit io" where
  "set_cursor c = (\<lambda>w. (Normal (), w\<lparr>cursor := c\<rparr>))"

definition sendMessage :: "string \<Rightarrow> string option \<Rightarrow> 'a completion \<Rightarrow> 'a io" where
  \<comment> \<open>\<open>browser.runtime.sendMessage\<close>: the message goes out, the promise settles with the
      other side's reply\<close>
  "sendMessage method payload reply = bind_io (emit (SendMessage method payload)) (\<lambda>_. await reply)"

definition new_effects :: "'a io \<Rightarrow> page \<Rightarrow> effect list" where
  "new_effects m w = drop (length (trace w)) (trace (snd (m w)))"

section \<open>Selection overlay, area variant\<close>

record rect =
  rect_x :: int
  rect_y :: int
  rect_width :: int
  rect_height :: int

datatype area_event = KeyUp string | MouseDown int int | MouseMove int int | MouseUp int int

text \<open>
  The attributes of the \<open>maskCutout\<close> rectangle (\<open>None\<close>: the attribute was never set)
  and the \<open>mousemove\<close> listeners registered so far, each closing over the
  \<open>startX\<close>, \<open>startY\<close> of the \<open>mousedown\<close> that registered it.
\<close>

record area_selector =
  anchors :: "(int \<times> int) list"
  attr_x :: "int option"
  attr_y :: "int option"
  attr_width :: "int option"
  attr_height :: "int option"

definition new_area_selector :: area_selector where
  "new_area_selector =
     \<lparr> anchors = [], attr_x = None, attr_y = None, attr_width = None, attr_height = None \<rparr>"

definition on_mousemove :: "int \<Rightarrow> int \<Rightarrow> area_selector \<Rightarrow> int \<times> int \<Rightarrow> area_selector" where
  "on_mousemove clientX clientY st start =
     (case start of (startX, startY) \<Rightarrow>
        st\<lparr> attr_x := Some (min startX clientX),
            attr_y := Some (min startY clientY),
            attr_width := Some \<bar>clientX - startX\<bar>,
            attr_height := Some \<bar>clientY - startY\<bar> \<rparr>)"

text \<open>
  \<open>baseVal.value\<close> of an SVG length is a single-precision number: the attribute's
  integer is read back rounded to 24 significant bits, to the nearest such number and
  to the even one of two equally near. \<open>shift_needed a\<close> is the number of low bits of
  \<open>a\<close> that do not fit. Up to \<open>2 ^ 24\<close> in magnitude the read is exact. (Magnitudes
  from \<open>2 ^ 128\<close> on, which overflow single precision, are outside the model.)
\<close>

fun shift_needed :: "nat \<Rightarrow> nat" where
  "shift_needed a = (if a < 2 ^ 24 then 0 else Suc (shift_needed (a div 2)))"

declare shift_needed.simps [simp del]

definition float32 :: "int \<Rightarrow> int" where
  "float32 v =
     (let a = nat \<bar>v\<bar>; e = shift_needed a; q = a div 2 ^ e; r = a mod 2 ^ e;
          q' = (if 2 * r > 2 ^ e \<or> (2 * r = 2 ^ e \<and> odd q) then q + 1 else q)
      in sgn v * int (q' * 2 ^ e))"

definition baseVal :: "int option \<Rightarrow> int" where
  \<comment> \<open>an SVG length attribute that is absent reads as 0\<close>
  "baseVal a = (case a of None \<Rightarrow> 0 | Some v \<Rightarrow> float32 v)"

definition DOMRectReadOnly :: "area_selector \<Rightarrow> rect" where
  "DOMRectReadOnly st =
     \<lparr> rect_x = baseVal (attr_x st), rect_y = baseVal (attr_y st),
       rect_width = baseVal (attr_width st), rect_height = baseVal (attr_height st) \<rparr>"

text \<open>
  Of the overlay that the selector builds (backdrop, mask, cut-out) the model keeps the
  cut-out's four attributes and the overlay's presence in the document body.
  Coordinates are integers, as pointer events deliver them; the attributes hold them
  exactly (as decimal strings) and only the final read rounds.

  The promise of the area selector, driven by the events its listeners receive. The
  \<open>mouseup\<close> listener is registered by the \<open>mousedown\<close> handler, so a \<open>mouseup\<close>
  resolves exactly when some \<open>mousedown\<close> came before it; the code after the
  \<open>await\<close> reads the cut-out's attributes before any further event is dispatched.
  An event list that ends before the promise settles leaves it pending.
\<close>

fun run_area :: "area_selector \<Rightarrow> area_event list \<Rightarrow> rect completion" where
  "run_area st [] = Pending"
| "run_area st (KeyUp key # es) =
     (if key = ''Escape'' then Throw (AbortError ''Aborted with Escape'') else run_area st es)"
| "run_area st (MouseDown startX startY # es) =
     run_area (st\<lparr>anchors := anchors st @ [(startX, startY)]\<rparr>) es"
| "run_area st (MouseMove clientX clientY # es) =
     run_area (foldl (on_mousemove clientX clientY) st (anchors st)) es"
| "run_area st (MouseUp clientX clientY # es) =
     (if anchors st \<noteq> [] then Normal (DOMRectReadOnly st) else run_area st es)"

definition letUserSelectCaptureArea :: "area_event list \<Rightarrow> rect io" where
  "letUserSelectCaptureArea events =
     try_finally
       (bind_io (append_child AreaOverlay) (\<lambda>_. await (run_area new_area_selector events)))
       (remove_node AreaOverlay)"

section \<open>Elements and their background colour\<close>

datatype element =
  Element (backgroundColor: string) (boundingClientRect: rect) (parentElement: "element option")

fun realBackgroundColor :: "element \<Rightarrow> string" where
  "realBackgroundColor (Element background r None) = background"
| "realBackgroundColor (Element background r (Some parent)) =
     (if background = ''rgba(0, 0, 0, 0)'' \<or> background = ''transparent''
      then realBackgroundColor parent else background)"

definition transparent :: "string \<Rightarrow> bool" where
  "transparent c \<longleftrightarrow> c = ''rgba(0, 0, 0, 0)'' \<or> c = ''transparent''"

fun ancestors :: "element \<Rightarrow> element list" where
  \<comment> \<open>the chain of \<open>parentElement\<close>s, nearest first\<close>
  "ancestors (Element background r None) = []"
| "ancestors (Element background r (Some parent)) = parent # ancestors parent"

section \<open>Selection overlay, element variant\<close>

datatype element_event = KeyUpE string | MouseMoveE element | ClickE "element option"

record highlight =
  mask_left :: int
  mask_top :: int
  mask_width :: int
  mask_height :: int

definition new_highlight :: highlight where
  "new_highlight = \<lparr> mask_left = 0, mask_top = 0, mask_width = 0, mask_height = 0 \<rparr>"

definition candidate :: "element \<Rightarrow> element" where
  \<comment> \<open>\<^verbatim>\<open>target.parentElement ? target.parentElement : target\<close>\<close>
  "candidate t = (case parentElement t of Some parent \<Rightarrow> parent | None \<Rightarrow> t)"

definition highlight_of :: "int \<times> int \<Rightarrow> element \<Rightarrow> highlight" where
  "highlight_of scroll parent =
     \<lparr> mask_left = rect_x (boundingClientRect parent) + fst scroll,
       mask_top = rect_y (boundingClientRect parent) + snd scroll,
       mask_width = rect_width (boundingClientRect parent),
       mask_height = rect_height (boundingClientRect parent) \<rparr>"

fun run_element :: "int \<times> int \<Rightarrow> highlight \<Rightarrow> element_event list \<Rightarrow> element completion" where
  "run_element scroll box [] = Pending"
| "run_element scroll box (KeyUpE key # es) =
     (if key = ''Escape'' then Throw (AbortError ''Aborted with Escape'')
      else run_element scroll box es)"
| "run_element scroll box (MouseMoveE t # es) =
     run_element scroll (highlight_of scroll (candidate t)) es"
| "run_element scroll box (ClickE None # es) = run_element scroll box es"
| "run_element scroll box (ClickE (Some t) # es) = Normal (candidate t)"

definition letUserSelectCaptureElement :: "int \<times> int \<Rightarrow> element_event list \<Rightarrow> element io" where
  "letUserSelectCaptureElement scroll events =
     bind_io (append_child ElementOverlay) (\<lambda>_.
       try_finally (await (run_element scroll new_highlight events)) (remove_node ElementOverlay))"

section \<open>The capture orchestrator (content script)\<close>

text \<open>
  The rendered SVG document: what the renderer produced, and the inline
  \<open>background-color\<close> of its root \<open>svg\<close> element, which the orchestrator assigns.
\<close>

record svg_document =
  markup :: string
  root_backgroundColor :: string

text \<open>
  Everything the content script takes from outside: the page's title and scroll
  offset, the events the user produces while a selector is open, and how each call to
  the platform or to a library ends (the renderer, the serializer, the minifier and
  the pretty-printer are collaborators that are not part of the repository).
\<close>

record env =
  title :: string
  scroll :: "int \<times> int"
  started_reply :: "unit completion"
  capture_message :: "CaptureArea completion"
  area_input :: "area_event list"
  element_input :: "element_event list"
  storage_get :: "Settings completion"
  elementToSVG :: "element \<Rightarrow> bool option \<Rightarrow> svg_document completion"
  documentToSVG :: "rect option \<Rightarrow> bool option \<Rightarrow> svg_document completion"
  serializeToString :: "svg_document \<Rightarrow> string"
  postProcessSVG_reply :: "string \<Rightarrow> string completion"
  minifySvg_result :: "string \<Rightarrow> string completion"
  formatXML_result :: "string \<Rightarrow> string completion"
  writeText_result :: "string \<Rightarrow> unit completion"
  objectURL :: "string \<Rightarrow> string"
  finished_reply :: "unit completion"

text \<open>
  The body of \<open>capture\<close> is written as the stages \<open>render\<close>, \<open>post_process\<close> and
  \<open>export_sink\<close>, which \<open>capture_body\<close> (the \<^verbatim>\<open>try\<close> block) runs in sequence. The
  \<^verbatim>\<open>await delay(0)\<close> always resolves and is left out; a \<^verbatim>\<open>console.log\<close> is recorded
  with its first argument.
\<close>

definition render :: "env \<Rightarrow> Settings \<Rightarrow> element option \<Rightarrow> rect option \<Rightarrow> svg_document io" where
  "render e settings captureElement captureArea =
     bind_io
       (case captureElement of
          Some el \<Rightarrow> await (elementToSVG e el (keepLinks settings))
        | None \<Rightarrow> await (documentToSVG e captureArea (keepLinks settings)))
       (\<lambda>svgDocument.
          case captureElement of
            Some el \<Rightarrow> ret (svgDocument\<lparr>root_backgroundColor := realBackgroundColor el\<rparr>)
          | None \<Rightarrow> ret svgDocument)"

definition post_process :: "env \<Rightarrow> Settings \<Rightarrow> string \<Rightarrow> string io" where
  "post_process e settings svgString =
     bind_io
       (if inlineResources settings = Some True
        then bind_io (emit (ConsoleLog ''Inlining resources'')) (\<lambda>_.
               sendMessage ''postProcessSVG'' (Some svgString) (postProcessSVG_reply e svgString))
        else ret svgString)
       (\<lambda>svgString.
     bind_io
       (if minifySvg settings = Some True
        then bind_io (emit (ConsoleLog ''Minifying'')) (\<lambda>_.
             bind_io (emit (MinifySvg svgString)) (\<lambda>_. await (minifySvg_result e svgString)))
        else ret svgString)
       (\<lambda>svgString.
        if prettyPrintSvg settings = Some True \<and> minifySvg settings \<noteq> Some True
        then bind_io (emit (ConsoleLog ''Pretty-printing SVG'')) (\<lambda>_.
             bind_io (emit (FormatXML svgString)) (\<lambda>_. await (formatXML_result e svgString)))
        else ret svgString))"

definition screenshot_name :: "string \<Rightarrow> string" where
  \<comment> \<open>\<^verbatim>\<open>`${document.title.replace(/["'/]/g, '')} Screenshot.svg`\<close>\<close>
  "screenshot_name t =
     filter (\<lambda>c. c \<noteq> CHR 0x22 \<and> c \<noteq> CHR 0x27 \<and> c \<noteq> CHR ''/'') t @ '' Screenshot.svg''"

definition String_target :: "Target option \<Rightarrow> string" where
  "String_target t = (case t of None \<Rightarrow> ''undefined'' | Some v \<Rightarrow> target_string v)"

definition export_sink :: "env \<Rightarrow> Settings \<Rightarrow> string \<Rightarrow> unit io" where
  "export_sink e settings svgString =
     bind_io (emit (ConsoleLog ''SVG size after minification:'')) (\<lambda>_.
       if target settings = Some Download then
         bind_io (emit (ConsoleLog ''Downloading'')) (\<lambda>_.
           emit (SaveAs svgString (screenshot_name (title e))))
       else if target settings = Some Clipboard then
         bind_io (emit (ConsoleLog ''Copying to clipboard'')) (\<lambda>_.
         bind_io (emit (ClipboardWriteText svgString)) (\<lambda>_.
           await (writeText_result e svgString)))
       else if target settings = Some Tab then
         bind_io (emit (ConsoleLog ''Opening in new tab'')) (\<lambda>_.
         bind_io (emit (CreateObjectURL svgString)) (\<lambda>_.
           emit (WindowOpen (objectURL e svgString) ''_blank'' ''noopener'')))
       else throw (Error (''Unexpected SVG target '' @ String_target (target settings))))"

definition capture_body :: "env \<Rightarrow> element option \<Rightarrow> rect option \<Rightarrow> unit io" where
  "capture_body e captureElement captureArea =
     bind_io (await (storage_get e)) (\<lambda>stored.
     bind_io (render e (applyDefaults stored) captureElement captureArea) (\<lambda>svgDocument.
     bind_io (post_process e (applyDefaults stored) (serializeToString e svgDocument)) (\<lambda>svgString.
       export_sink e (applyDefaults stored) svgString)))"

definition capture :: "env \<Rightarrow> CaptureArea \<Rightarrow> unit io" where
  "capture e area =
     bind_io (emit (ConsoleLog ''Capturing'')) (\<lambda>_.
     bind_io
       (if area = CaptureElement
        then bind_io (letUserSelectCaptureElement (scroll e) (element_input e)) (\<lambda>el. ret (Some el))
        else ret None)
       (\<lambda>captureElement.
     bind_io
       (if area = CaptureArea
        then bind_io (letUserSelectCaptureArea (area_input e)) (\<lambda>r. ret (Some r))
        else ret None)
       (\<lambda>captureArea.
     bind_io (set_cursor ''wait'') (\<lambda>_.
       try_finally (capture_body e captureElement captureArea) (set_cursor [])))))"

definition alert_text :: "string \<Rightarrow> string" where
  "alert_text errorMessage =
     ''An error happened while capturing the page: '' @ errorMessage @ [CHR 0x0A]
       @ ''Check the developer console for more information.''"

definition on_error :: "js_value \<Rightarrow> unit io" where
  \<comment> \<open>the \<^verbatim>\<open>catch\<close> block of \<open>main\<close>; reading \<open>message\<close> off a nullish value throws\<close>
  "on_error error =
     (case error of
        ErrorObject name message \<Rightarrow>
          if name = ''AbortError'' then ret ()
          else bind_io (emit (ConsoleError error)) (\<lambda>_. emit (Alert (alert_text message)))
      | Nullish \<Rightarrow>
          bind_io (emit (ConsoleError error)) (\<lambda>_.
            throw (TypeError ''Cannot read properties of undefined'')))"

definition session_body :: "env \<Rightarrow> unit io" where
  "session_body e = bind_io (await (capture_message e)) (\<lambda>area. capture e area)"

definition session :: "env \<Rightarrow> unit io" where
  "session e = try_catch (session_body e) on_error"

definition main :: "env \<Rightarrow> unit io" where
  "main e =
     bind_io (emit (ConsoleLog ''Content script running'')) (\<lambda>_.
     bind_io (sendMessage ''started'' None (started_reply e)) (\<lambda>_.
       try_finally (session e) (sendMessage ''finished'' None (finished_reply e))))"

section \<open>The background page: upload to object storage\<close>

text \<open>
  A parsed URL, as the platform's \<open>URL\<close> class holds it. The parser, and the parsing
  that the \<open>hostname\<close> and \<open>pathname\<close> setters apply to the value assigned, belong
  to the platform and are taken as parameters: a host that the platform refuses leaves
  the URL as it was.
\<close>

record url =
  url_protocol :: string
  url_username :: string
  url_password :: string
  url_hostname :: string
  url_port :: string
  url_pathname :: string
  url_search :: string
  url_hash :: string




definition url_host :: "url \<Rightarrow> string" where
  "url_host u = url_hostname u @ (if url_port u = [] then [] else '':'' @ url_port u)"

definition url_credentials :: "url \<Rightarrow> string" where
  "url_credentials u =
     (if url_username u = [] \<and> url_password u = [] then []
      else url_username u @ (if url_password u = [] then [] else '':'' @ url_password u) @ ''@'')"

definition href :: "url \<Rightarrow> string" where
  \<comment> \<open>the serialization of a URL that has a host; \<open>protocol\<close> ends with the colon,
      \<open>search\<close> and \<open>hash\<close> start with their delimiter when they are not empty\<close>
  "href u = url_protocol u @ ''//'' @ url_credentials u @ url_host u @ url_pathname u
     @ url_search u @ url_hash u"






section \<open>The popup: the options form's change handler\<close>

text \<open>
  The target of a \<open>change\<close> event: an \<open>input\<close> element with its \<open>type\<close>, \<open>name\<close>,
  \<open>checked\<close> and \<open>value\<close>, or a form control of another class (a \<open>select\<close>, a
  \<open>textarea\<close>) with its \<open>type\<close>, \<open>name\<close> and \<open>value\<close>.
\<close>

datatype change_target =
    HTMLInputElement (input_type: string) (input_name: string) (input_checked: bool)
      (input_value: string)
  | OtherControl (control_type: string) (control_name: string) (control_value: string)

datatype stored_value = StoredBool bool | StoredString string

type_synonym sync_storage = "string \<rightharpoonup> stored_value"

fun on_change :: "change_target \<Rightarrow> sync_storage \<Rightarrow> unit completion \<times> sync_storage" where
  "on_change (OtherControl ty name v) store = (Normal (), store)"
| "on_change (HTMLInputElement ty name chk v) store =
     (if ty = ''checkbox'' then (Normal (), store(name \<mapsto> StoredBool chk))
      else if ty = ''radio'' then (Normal (), store(name \<mapsto> StoredString v))
      else if ty = ''text'' then (Normal (), store(name \<mapsto> StoredString v))
      else (Throw (Error (''Unexpected form element '' @ ty)), store))"

section \<open>Predicates on the effects of a computation\<close>

text \<open>
  \<open>emits_only P m\<close>: whatever the page, \<open>m\<close> only appends to the trace, and every
  effect it appends satisfies \<open>P\<close>.
\<close>

definition emits_only :: "(effect \<Rightarrow> bool) \<Rightarrow> 'a io \<Rightarrow> bool" where
  "emits_only P m \<longleftrightarrow> (\<forall>w. \<exists>new. trace (snd (m w)) = trace w @ new \<and> list_all P new)"

fun capture_effect :: "effect \<Rightarrow> bool" where
  "capture_effect (ConsoleLog s) = True"
| "capture_effect (SendMessage method payload) = (method = ''postProcessSVG'')"
| "capture_effect (MinifySvg s) = True"
| "capture_effect (FormatXML s) = True"
| "capture_effect (SaveAs s n) = True"
| "capture_effect (ClipboardWriteText s) = True"
| "capture_effect (CreateObjectURL s) = True"
| "capture_effect (WindowOpen u t f) = True"
| "capture_effect e = False"

definition session_effect :: "effect \<Rightarrow> bool" where
  "session_effect eff \<longleftrightarrow> eff \<noteq> SendMessage ''finished'' None"

definition not_pretty :: "effect \<Rightarrow> bool" where
  "not_pretty eff \<longleftrightarrow> (\<forall>x. eff \<noteq> FormatXML x)"

section \<open>Example inputs\<close>

definition blank_page :: page where
  "blank_page = \<lparr> body = [PageNode 0], cursor = [], trace = [] \<rparr>"

definition rendered :: svg_document where
  "rendered = \<lparr> markup = ''<svg/>'', root_backgroundColor = [] \<rparr>"

definition no_settings :: Settings where
  "no_settings = \<lparr> minifySvg = None, inlineResources = None, prettyPrintSvg = None,
     keepLinks = None, target = None, s3Bucket = None, s3Config = None \<rparr>"

definition viewport_env :: env where
  "viewport_env =
     \<lparr> title = ''A \"page\"/1'', scroll = (0, 0), started_reply = Normal (),
       capture_message = Normal CaptureViewport, area_input = [], element_input = [],
       storage_get = Normal no_settings,
       elementToSVG = (\<lambda>el k. Normal rendered),
       documentToSVG = (\<lambda>r k. Normal rendered),
       serializeToString = markup,
       postProcessSVG_reply = Normal,
       minifySvg_result = Normal,
       formatXML_result = Normal,
       writeText_result = (\<lambda>s. Normal ()),
       objectURL = (\<lambda>s. ''blob:1''),
       finished_reply = Normal () \<rparr>"

definition opaque_root :: element where
  "opaque_root =
     Element ''rgb(1, 2, 3)'' \<lparr>rect_x = 0, rect_y = 0, rect_width = 9, rect_height = 9\<rparr> None"

definition clear_child :: element where
  "clear_child =
     Element ''transparent'' \<lparr>rect_x = 1, rect_y = 1, rect_width = 5, rect_height = 5\<rparr>
       (Some (Element ''rgba(0, 0, 0, 0)''
          \<lparr>rect_x = 0, rect_y = 0, rect_width = 7, rect_height = 7\<rparr> (Some opaque_root)))"

definition example_url :: url where
  "example_url =
     \<lparr> url_protocol = ''https:'', url_username = [], url_password = [],
       url_hostname = ''s3.example.com'', url_port = [], url_pathname = ''/'',
       url_search = [], url_hash = [] \<rparr>"






definition aborting_clipboard_env :: env where
  \<comment> \<open>a viewport capture to the clipboard whose write is rejected with an error that is
      named \<open>AbortError\<close>\<close>
  "aborting_clipboard_env =
     viewport_env\<lparr> storage_get := Normal (no_settings\<lparr>target := Some Clipboard\<rparr>),
       writeText_result := (\<lambda>s. Throw (ErrorObject ''AbortError'' ''The operation was aborted.'')) \<rparr>"

section \<open>Properties of the settings defaults\<close>

lemma or_default_simps [simp]:
  "or_default d None = Some d"
  "or_default d (Some x) = Some x"
  by (simp_all add: or_default_def)

lemma or_default_defined: "or_default d v \<noteq> None"
  by (cases v) simp_all

lemma or_default_idem: "or_default d (or_default d v) = or_default d v"
  by (cases v) simp_all

lemma applyDefaults_complete: "is_complete (applyDefaults s)"
  by (simp add: is_complete_def applyDefaults_def or_default_defined)

lemma applyDefaults_idem: "applyDefaults (applyDefaults s) = applyDefaults s"
  by (simp add: applyDefaults_def or_default_idem)

lemma applyDefaults_id: "is_complete s \<Longrightarrow> applyDefaults s = s"
  by (cases s) (auto simp: is_complete_def applyDefaults_def)

lemma applyDefaults_present:
  "minifySvg s = Some a \<Longrightarrow> minifySvg (applyDefaults s) = Some a"
  "inlineResources s = Some a \<Longrightarrow> inlineResources (applyDefaults s) = Some a"
  "prettyPrintSvg s = Some a \<Longrightarrow> prettyPrintSvg (applyDefaults s) = Some a"
  "keepLinks s = Some a \<Longrightarrow> keepLinks (applyDefaults s) = Some a"
  "target s = Some t \<Longrightarrow> target (applyDefaults s) = Some t"
  "s3Bucket s = Some b \<Longrightarrow> s3Bucket (applyDefaults s) = Some b"
  "s3Config s = Some b \<Longrightarrow> s3Config (applyDefaults s) = Some b"
  by (simp_all add: applyDefaults_def)

lemma applyDefaults_absent:
  "minifySvg s = None \<Longrightarrow> minifySvg (applyDefaults s) = Some False"
  "inlineResources s = None \<Longrightarrow> inlineResources (applyDefaults s) = Some True"
  "prettyPrintSvg s = None \<Longrightarrow> prettyPrintSvg (applyDefaults s) = Some True"
  "keepLinks s = None \<Longrightarrow> keepLinks (applyDefaults s) = Some True"
  "target s = None \<Longrightarrow> target (applyDefaults s) = Some Download"
  "s3Bucket s = None \<Longrightarrow> s3Bucket (applyDefaults s) = Some []"
  "s3Config s = None \<Longrightarrow> s3Config (applyDefaults s) = Some []"
  by (simp_all add: applyDefaults_def)

text \<open>
  C10. For every (possibly partial) settings record \<open>s\<close>, \<open>applyDefaults s\<close> has every
  field defined; a field present in \<open>s\<close> keeps its value and an absent field receives
  its fixed default (inlineResources true, minifySvg false, prettyPrintSvg true,
  keepLinks true, target download, s3Bucket and s3Config the empty string). Hence
  \<open>applyDefaults\<close> is idempotent and is the identity on complete records.
\<close>

theorem applyDefaults_spec:
  "is_complete (applyDefaults s)
   \<and> (\<forall>v. inlineResources s = Some v \<longrightarrow> inlineResources (applyDefaults s) = Some v)
   \<and> (\<forall>v. minifySvg s = Some v \<longrightarrow> minifySvg (applyDefaults s) = Some v)
   \<and> (\<forall>v. prettyPrintSvg s = Some v \<longrightarrow> prettyPrintSvg (applyDefaults s) = Some v)
   \<and> (\<forall>v. keepLinks s = Some v \<longrightarrow> keepLinks (applyDefaults s) = Some v)
   \<and> (\<forall>v. target s = Some v \<longrightarrow> target (applyDefaults s) = Some v)
   \<and> (\<forall>v. s3Bucket s = Some v \<longrightarrow> s3Bucket (applyDefaults s) = Some v)
   \<and> (\<forall>v. s3Config s = Some v \<longrightarrow> s3Config (applyDefaults s) = Some v)
   \<and> (inlineResources s = None \<longrightarrow> inlineResources (applyDefaults s) = Some True)
   \<and> (minifySvg s = None \<longrightarrow> minifySvg (applyDefaults s) = Some False)
   \<and> (prettyPrintSvg s = None \<longrightarrow> prettyPrintSvg (applyDefaults s) = Some True)
   \<and> (keepLinks s = None \<longrightarrow> keepLinks (applyDefaults s) = Some True)
   \<and> (target s = None \<longrightarrow> target (applyDefaults s) = Some Download)
   \<and> (s3Bucket s = None \<longrightarrow> s3Bucket (applyDefaults s) = Some [])
   \<and> (s3Config s = None \<longrightarrow> s3Config (applyDefaults s) = Some [])
   \<and> applyDefaults (applyDefaults s) = applyDefaults s
   \<and> (is_complete s \<longrightarrow> applyDefaults s = s)"
  using applyDefaults_complete [of s] applyDefaults_idem [of s] applyDefaults_id [of s]
  by (simp add: applyDefaults_present applyDefaults_absent)

theorem applyDefaults_spec_witness:
  "minifySvg (applyDefaults \<lparr> minifySvg = Some True, inlineResources = None,
      prettyPrintSvg = None, keepLinks = Some False, target = Some Clipboard,
      s3Bucket = None, s3Config = None \<rparr>) = Some True
   \<and> prettyPrintSvg (applyDefaults \<lparr> minifySvg = Some True, inlineResources = None,
      prettyPrintSvg = None, keepLinks = Some False, target = Some Clipboard,
      s3Bucket = None, s3Config = None \<rparr>) = Some True
   \<and> is_complete (applyDefaults \<lparr> minifySvg = Some True, inlineResources = None,
      prettyPrintSvg = None, keepLinks = Some False, target = Some Clipboard,
      s3Bucket = None, s3Config = None \<rparr>)
   \<and> is_complete \<lparr> minifySvg = Some False, inlineResources = Some True,
      prettyPrintSvg = Some True, keepLinks = Some True, target = Some Tab,
      s3Bucket = Some ''shots'', s3Config = Some [] \<rparr>
   \<and> applyDefaults \<lparr> minifySvg = Some False, inlineResources = Some True,
      prettyPrintSvg = Some True, keepLinks = Some True, target = Some Tab,
      s3Bucket = Some ''shots'', s3Config = Some [] \<rparr>
     = \<lparr> minifySvg = Some False, inlineResources = Some True,
      prettyPrintSvg = Some True, keepLinks = Some True, target = Some Tab,
      s3Bucket = Some ''shots'', s3Config = Some [] \<rparr>"
  using applyDefaults_spec [of "\<lparr> minifySvg = Some True, inlineResources = None,
      prettyPrintSvg = None, keepLinks = Some False, target = Some Clipboard,
      s3Bucket = None, s3Config = None \<rparr>"]
    applyDefaults_spec [of "\<lparr> minifySvg = Some False, inlineResources = Some True,
      prettyPrintSvg = Some True, keepLinks = Some True, target = Some Tab,
      s3Bucket = Some ''shots'', s3Config = Some [] \<rparr>"]
  by (simp add: is_complete_def applyDefaults_def)

section \<open>Effects of the combinators and of the capture\<close>

lemmas run_defs = main_def session_def session_body_def capture_def capture_body_def
  render_def post_process_def export_sink_def on_error_def
  letUserSelectCaptureArea_def letUserSelectCaptureElement_def
  sendMessage_def bind_io_def try_catch_def try_finally_def emit_def await_def ret_def
  throw_def append_child_def remove_node_def set_cursor_def applyDefaults_def
  viewport_env_def blank_page_def rendered_def no_settings_def new_effects_def
  AbortError_def Error_def alert_text_def String_target_def screenshot_name_def
  new_area_selector_def DOMRectReadOnly_def baseVal_def on_mousemove_def
  new_highlight_def candidate_def highlight_of_def

lemma emits_onlyI:
  "(\<And>w. \<exists>new. trace (snd (m w)) = trace w @ new \<and> list_all P new) \<Longrightarrow> emits_only P m"
  by (simp add: emits_only_def)

lemma emits_onlyD:
  "emits_only P m \<Longrightarrow> \<exists>new. trace (snd (m w)) = trace w @ new \<and> list_all P new"
  by (simp add: emits_only_def)

lemma emits_only_ret: "emits_only P (ret v)"
  by (simp add: emits_only_def ret_def)

lemma emits_only_throw: "emits_only P (throw e)"
  by (simp add: emits_only_def throw_def)

lemma emits_only_await: "emits_only P (await c)"
  by (simp add: emits_only_def await_def)

lemma emits_only_emit: "P e \<Longrightarrow> emits_only P (emit e)"
  by (simp add: emits_only_def emit_def)

lemma emits_only_append_child: "emits_only P (append_child n)"
  by (simp add: emits_only_def append_child_def)

lemma emits_only_remove_node: "emits_only P (remove_node n)"
  by (simp add: emits_only_def remove_node_def)

lemma emits_only_set_cursor: "emits_only P (set_cursor c)"
  by (simp add: emits_only_def set_cursor_def)

lemma emits_only_bind:
  assumes m: "emits_only P m" and f: "\<And>v. emits_only P (f v)"
  shows "emits_only P (bind_io m f)"
proof (rule emits_onlyI)
  fix w
  obtain r w1 where mw: "m w = (r, w1)" by (cases "m w")
  from emits_onlyD [OF m, of w] mw obtain n1
    where n1: "trace w1 = trace w @ n1" "list_all P n1" by auto
  show "\<exists>new. trace (snd (bind_io m f w)) = trace w @ new \<and> list_all P new"
  proof (cases r)
    case (Normal v)
    from emits_onlyD [OF f, of v w1] obtain n2
      where "trace (snd (f v w1)) = trace w1 @ n2" "list_all P n2" by auto
    with n1 Normal mw show ?thesis by (simp add: bind_io_def)
  next
    case (Throw e)
    with n1 mw show ?thesis by (simp add: bind_io_def)
  next
    case Pending
    with n1 mw show ?thesis by (simp add: bind_io_def)
  qed
qed

lemma emits_only_bind_await:
  assumes "\<And>v. c = Normal v \<Longrightarrow> emits_only P (f v)"
  shows "emits_only P (bind_io (await c) f)"
proof (cases c)
  case (Normal v)
  have "bind_io (await c) f = f v" by (simp add: bind_io_def await_def Normal)
  with assms [OF Normal] show ?thesis by simp
next
  case (Throw e)
  then show ?thesis by (simp add: emits_only_def bind_io_def await_def)
next
  case Pending
  then show ?thesis by (simp add: emits_only_def bind_io_def await_def)
qed

lemma emits_only_try_catch:
  assumes m: "emits_only P m" and h: "\<And>e. emits_only P (h e)"
  shows "emits_only P (try_catch m h)"
proof (rule emits_onlyI)
  fix w
  obtain r w1 where mw: "m w = (r, w1)" by (cases "m w")
  from emits_onlyD [OF m, of w] mw obtain n1
    where n1: "trace w1 = trace w @ n1" "list_all P n1" by auto
  show "\<exists>new. trace (snd (try_catch m h w)) = trace w @ new \<and> list_all P new"
  proof (cases r)
    case (Throw e)
    from emits_onlyD [OF h, of e w1] obtain n2
      where "trace (snd (h e w1)) = trace w1 @ n2" "list_all P n2" by auto
    with n1 Throw mw show ?thesis by (simp add: try_catch_def)
  next
    case (Normal v)
    with n1 mw show ?thesis by (simp add: try_catch_def)
  next
    case Pending
    with n1 mw show ?thesis by (simp add: try_catch_def)
  qed
qed

lemma emits_only_try_finally:
  assumes m: "emits_only P m" and f: "emits_only P fin"
  shows "emits_only P (try_finally m fin)"
proof (rule emits_onlyI)
  fix w
  obtain r w1 where mw: "m w = (r, w1)" by (cases "m w")
  from emits_onlyD [OF m, of w] mw obtain n1
    where n1: "trace w1 = trace w @ n1" "list_all P n1" by auto
  obtain r2 w2 where fw: "fin w1 = (r2, w2)" by (cases "fin w1")
  from emits_onlyD [OF f, of w1] fw obtain n2
    where n2: "trace w2 = trace w1 @ n2" "list_all P n2" by auto
  show "\<exists>new. trace (snd (try_finally m fin w)) = trace w @ new \<and> list_all P new"
    using n1 n2 mw fw by (cases r; cases r2) (simp_all add: try_finally_def)
qed

lemma emits_only_sendMessage: "P (SendMessage method payload) \<Longrightarrow> emits_only P (sendMessage method payload reply)"
  unfolding sendMessage_def by (intro emits_only_bind emits_only_emit emits_only_await)

lemma emits_only_letUserSelectCaptureArea: "emits_only P (letUserSelectCaptureArea events)"
  unfolding letUserSelectCaptureArea_def
  by (intro emits_only_try_finally emits_only_bind emits_only_append_child emits_only_await
      emits_only_remove_node)

lemma emits_only_letUserSelectCaptureElement: "emits_only P (letUserSelectCaptureElement sc events)"
  unfolding letUserSelectCaptureElement_def
  by (intro emits_only_try_finally emits_only_bind emits_only_append_child emits_only_await
      emits_only_remove_node)

lemma emits_only_render: "emits_only P (render e settings captureElement captureArea)"
  unfolding render_def
  by (intro emits_only_bind) (auto split: option.splits intro: emits_only_await emits_only_ret)

lemma emits_only_post_process: "emits_only capture_effect (post_process e settings s)"
  unfolding post_process_def
  by (intro emits_only_bind)
     (auto intro!: emits_only_bind emits_only_emit emits_only_await emits_only_ret
        emits_only_sendMessage)

lemma emits_only_export_sink: "emits_only capture_effect (export_sink e settings s)"
  unfolding export_sink_def
  by (intro emits_only_bind)
     (auto intro!: emits_only_bind emits_only_emit emits_only_await emits_only_ret
        emits_only_throw)

lemma emits_only_capture_body: "emits_only capture_effect (capture_body e captureElement captureArea)"
  unfolding capture_body_def
  by (intro emits_only_bind emits_only_await emits_only_render emits_only_post_process
        emits_only_export_sink)

lemma emits_only_capture: "emits_only capture_effect (capture e area)"
  unfolding capture_def
  by (intro emits_only_bind emits_only_try_finally emits_only_set_cursor emits_only_capture_body)
     (auto intro!: emits_only_bind emits_only_emit emits_only_ret
        emits_only_letUserSelectCaptureArea emits_only_letUserSelectCaptureElement)

lemma emits_only_session_body: "emits_only capture_effect (session_body e)"
  unfolding session_body_def
  by (intro emits_only_bind emits_only_await emits_only_capture)

section \<open>The session: finished, cancellation, failures\<close>

lemma emits_only_mono:
  "emits_only P m \<Longrightarrow> (\<And>e. P e \<Longrightarrow> Q e) \<Longrightarrow> emits_only Q m"
  unfolding emits_only_def list_all_iff by blast

lemma emits_only_new_effects: "emits_only P m \<Longrightarrow> list_all P (new_effects m w)"
  by (auto simp: new_effects_def dest: emits_onlyD [of P m w])

lemma trace_new_effects: "emits_only P m \<Longrightarrow> trace (snd (m w)) = trace w @ new_effects m w"
  by (auto simp: new_effects_def dest: emits_onlyD [of P m w])

lemma capture_effect_session: "capture_effect eff \<Longrightarrow> session_effect eff"
  by (cases eff) (simp_all add: session_effect_def)

lemma emits_only_on_error: "emits_only session_effect (on_error err)"
  unfolding on_error_def
  by (cases err)
     (auto intro!: emits_only_bind emits_only_emit emits_only_ret emits_only_throw
        simp: session_effect_def)

lemma emits_only_session: "emits_only session_effect (session e)"
  unfolding session_def
  by (intro emits_only_try_catch emits_only_on_error
        emits_only_mono [OF emits_only_session_body capture_effect_session])

lemma try_finally_send_finished:
  assumes "fst (m w) \<noteq> Pending"
  shows "trace (snd (try_finally m (sendMessage ''finished'' None reply) w))
           = trace (snd (m w)) @ [SendMessage ''finished'' None]"
  using assms
  by (cases "m w"; cases "fst (m w)"; cases reply)
     (auto simp: try_finally_def sendMessage_def bind_io_def emit_def await_def)

text \<open>
  C2. Take a run of \<open>main\<close> that has signalled \<open>started\<close> and whose capture session
  (the \<^verbatim>\<open>try\<close> with its \<^verbatim>\<open>catch\<close>) ends, whether the capture succeeded, the selection
  was cancelled or anything else failed (the handler of the \<^verbatim>\<open>catch\<close> block included).
  It sends the \<open>finished\<close> message exactly once, after the session: its trace is the
  effects up to the end of the session, none of which is \<open>finished\<close>, followed by
  \<open>finished\<close>. This does not depend on whether the reply to \<open>finished\<close> ever arrives.
\<close>

theorem finished_sent_exactly_once:
  assumes started: "started_reply e = Normal ()"
    and ends: "fst (session e (w\<lparr>trace := trace w @ [ConsoleLog ''Content script running'',
                 SendMessage ''started'' None]\<rparr>)) \<noteq> Pending"
  shows "\<exists>new. trace (snd (main e w)) = trace w @ new @ [SendMessage ''finished'' None]
           \<and> SendMessage ''finished'' None \<notin> set new"
proof -
  define w0 where "w0 = w\<lparr>trace := trace w @ [ConsoleLog ''Content script running'',
    SendMessage ''started'' None]\<rparr>"
  have unfold: "main e w = try_finally (session e) (sendMessage ''finished'' None (finished_reply e)) w0"
    by (simp add: main_def sendMessage_def bind_io_def emit_def await_def started w0_def)
  from emits_onlyD [OF emits_only_session, of e w0] obtain n1
    where n1: "trace (snd (session e w0)) = trace w0 @ n1" "list_all session_effect n1" by blast
  from ends have "fst (session e w0) \<noteq> Pending" by (simp add: w0_def)
  then have "trace (snd (main e w)) = trace (snd (session e w0)) @ [SendMessage ''finished'' None]"
    unfolding unfold by (rule try_finally_send_finished)
  then have "trace (snd (main e w)) = trace w
      @ ([ConsoleLog ''Content script running'', SendMessage ''started'' None] @ n1)
      @ [SendMessage ''finished'' None]"
    using n1 by (simp add: w0_def)
  moreover have "SendMessage ''finished'' None
      \<notin> set ([ConsoleLog ''Content script running'', SendMessage ''started'' None] @ n1)"
    using n1(2) by (auto simp: list_all_iff session_effect_def)
  ultimately show ?thesis by blast
qed

theorem finished_sent_exactly_once_witness:
  "started_reply (viewport_env\<lparr>capture_message := Normal CaptureArea,
       area_input := [MouseDown 10 10, MouseMove 5 5, KeyUp ''Escape''],
       finished_reply := Pending\<rparr>) = Normal ()
   \<and> fst (session (viewport_env\<lparr>capture_message := Normal CaptureArea,
       area_input := [MouseDown 10 10, MouseMove 5 5, KeyUp ''Escape''],
       finished_reply := Pending\<rparr>)
       (blank_page\<lparr>trace := trace blank_page @ [ConsoleLog ''Content script running'',
          SendMessage ''started'' None]\<rparr>)) = Normal ()
   \<and> trace (snd (main (viewport_env\<lparr>capture_message := Normal CaptureArea,
       area_input := [MouseDown 10 10, MouseMove 5 5, KeyUp ''Escape''],
       finished_reply := Pending\<rparr>) blank_page))
      = trace blank_page @ [ConsoleLog ''Content script running'', SendMessage ''started'' None,
          ConsoleLog ''Capturing''] @ [SendMessage ''finished'' None]"
  using finished_sent_exactly_once [of "viewport_env\<lparr>capture_message := Normal CaptureArea,
       area_input := [MouseDown 10 10, MouseMove 5 5, KeyUp ''Escape''],
       finished_reply := Pending\<rparr>" blank_page]
  by (simp add: run_defs)

text \<open>
  C6, as the code has it. When the awaited capture throws an error object, the
  \<^verbatim>\<open>catch\<close> block of \<open>main\<close> decides by the error's name alone. For an error named
  \<open>AbortError\<close> (the selectors' cancellation signal, or any other error of that name)
  the session ends normally and has shown no alert and logged no error. For an error
  object of any other name the session logs that error and then shows one alert whose
  text contains the error's message.
\<close>

theorem cancellation_silent_other_errors_alerted:
  assumes "session_body e w = (Throw err, w1)"
  shows "(\<forall>m. err = ErrorObject ''AbortError'' m \<longrightarrow>
            session e w = (Normal (), w1)
            \<and> (\<forall>t. Alert t \<notin> set (new_effects (session e) w))
            \<and> (\<forall>x. ConsoleError x \<notin> set (new_effects (session e) w)))
       \<and> (\<forall>n m. err = ErrorObject n m \<and> n \<noteq> ''AbortError'' \<longrightarrow>
            session e w = (Normal (), w1\<lparr>trace := trace w1 @ [ConsoleError err,
              Alert (''An error happened while capturing the page: '' @ m @ [CHR 0x0A]
                @ ''Check the developer console for more information.'')]\<rparr>))"
proof -
  have abort: "session e w = (Normal (), w1)
      \<and> (\<forall>t. Alert t \<notin> set (new_effects (session e) w))
      \<and> (\<forall>x. ConsoleError x \<notin> set (new_effects (session e) w))"
    if "err = ErrorObject ''AbortError'' m" for m
  proof -
    have s: "session e w = (Normal (), w1)"
      using assms that
      by (simp add: session_def try_catch_def on_error_def AbortError_def ret_def)
    have "new_effects (session e) w = new_effects (session_body e) w"
      using assms s by (simp add: new_effects_def)
    moreover have "list_all capture_effect (new_effects (session_body e) w)"
      by (rule emits_only_new_effects [OF emits_only_session_body])
    ultimately have "list_all capture_effect (new_effects (session e) w)" by simp
    then have "\<forall>eff \<in> set (new_effects (session e) w). capture_effect eff"
      by (simp add: list_all_iff)
    then have "(\<forall>t. Alert t \<notin> set (new_effects (session e) w))
      \<and> (\<forall>x. ConsoleError x \<notin> set (new_effects (session e) w))"
      by auto
    with s show ?thesis by simp
  qed
  have other: "session e w = (Normal (), w1\<lparr>trace := trace w1 @ [ConsoleError err,
      Alert (''An error happened while capturing the page: '' @ m @ [CHR 0x0A]
        @ ''Check the developer console for more information.'')]\<rparr>)"
    if "err = ErrorObject n m \<and> n \<noteq> ''AbortError''" for n m
    using assms that
    by (simp add: session_def try_catch_def on_error_def bind_io_def emit_def alert_text_def)
  from abort other show ?thesis by blast
qed

theorem cancellation_silent_other_errors_alerted_witness:
  "session_body (viewport_env\<lparr>capture_message := Normal CaptureArea,
       area_input := [KeyUp ''Escape'']\<rparr>) blank_page
     = (Throw (ErrorObject ''AbortError'' ''Aborted with Escape''),
        blank_page\<lparr>trace := [ConsoleLog ''Capturing'']\<rparr>)
   \<and> session (viewport_env\<lparr>capture_message := Normal CaptureArea,
       area_input := [KeyUp ''Escape'']\<rparr>) blank_page
     = (Normal (), blank_page\<lparr>trace := [ConsoleLog ''Capturing'']\<rparr>)
   \<and> session_body (viewport_env\<lparr>minifySvg_result := (\<lambda>s. Throw (ErrorObject ''SyntaxError'' ''bad svg'')),
       storage_get := Normal (no_settings\<lparr>minifySvg := Some True, inlineResources := Some False\<rparr>)\<rparr>) blank_page
     = (Throw (ErrorObject ''SyntaxError'' ''bad svg''),
        blank_page\<lparr>trace := [ConsoleLog ''Capturing'', ConsoleLog ''Minifying'', MinifySvg ''<svg/>'']\<rparr>)
   \<and> session (viewport_env\<lparr>minifySvg_result := (\<lambda>s. Throw (ErrorObject ''SyntaxError'' ''bad svg'')),
       storage_get := Normal (no_settings\<lparr>minifySvg := Some True, inlineResources := Some False\<rparr>)\<rparr>) blank_page
     = (Normal (), blank_page\<lparr>trace := [ConsoleLog ''Capturing'', ConsoleLog ''Minifying'',
          MinifySvg ''<svg/>'', ConsoleError (ErrorObject ''SyntaxError'' ''bad svg''),
          Alert (''An error happened while capturing the page: bad svg'' @ [CHR 0x0A]
            @ ''Check the developer console for more information.'')]\<rparr>)"
proof -
  have a: "session_body (viewport_env\<lparr>capture_message := Normal CaptureArea,
       area_input := [KeyUp ''Escape'']\<rparr>) blank_page
     = (Throw (ErrorObject ''AbortError'' ''Aborted with Escape''),
        blank_page\<lparr>trace := [ConsoleLog ''Capturing'']\<rparr>)"
    by (simp add: run_defs)
  have b: "session_body (viewport_env\<lparr>minifySvg_result := (\<lambda>s. Throw (ErrorObject ''SyntaxError'' ''bad svg'')),
       storage_get := Normal (no_settings\<lparr>minifySvg := Some True, inlineResources := Some False\<rparr>)\<rparr>) blank_page
     = (Throw (ErrorObject ''SyntaxError'' ''bad svg''),
        blank_page\<lparr>trace := [ConsoleLog ''Capturing'', ConsoleLog ''Minifying'', MinifySvg ''<svg/>'']\<rparr>)"
    by (simp add: run_defs)
  have c: "session (viewport_env\<lparr>capture_message := Normal CaptureArea,
       area_input := [KeyUp ''Escape'']\<rparr>) blank_page
     = (Normal (), blank_page\<lparr>trace := [ConsoleLog ''Capturing'']\<rparr>)"
    using cancellation_silent_other_errors_alerted [OF a] by blast
  have "''SyntaxError'' \<noteq> ''AbortError''" by simp
  with cancellation_silent_other_errors_alerted [OF b]
  have d: "session (viewport_env\<lparr>minifySvg_result := (\<lambda>s. Throw (ErrorObject ''SyntaxError'' ''bad svg'')),
       storage_get := Normal (no_settings\<lparr>minifySvg := Some True, inlineResources := Some False\<rparr>)\<rparr>) blank_page
     = (Normal (), blank_page\<lparr>trace := [ConsoleLog ''Capturing'', ConsoleLog ''Minifying'',
          MinifySvg ''<svg/>'']\<rparr>\<lparr>trace := trace (blank_page\<lparr>trace := [ConsoleLog ''Capturing'', ConsoleLog ''Minifying'',
          MinifySvg ''<svg/>'']\<rparr>) @ [ConsoleError (ErrorObject ''SyntaxError'' ''bad svg''),
          Alert (''An error happened while capturing the page: '' @ ''bad svg'' @ [CHR 0x0A]
            @ ''Check the developer console for more information.'')]\<rparr>)"
    by blast
  show ?thesis
    using a b c d by (simp add: blank_page_def)
qed

text \<open>
  C6 as stated, for every error other than the selection's cancellation, fails. In a
  viewport capture to the clipboard no selector runs; when the clipboard write is
  rejected with an error named \<open>AbortError\<close>, the session ends normally: nothing is
  logged with \<^verbatim>\<open>console.error\<close> and no alert is shown.
\<close>

theorem clipboard_abort_counterexample:
  "session_body aborting_clipboard_env blank_page
     = (Throw (ErrorObject ''AbortError'' ''The operation was aborted.''),
        blank_page\<lparr>trace := [ConsoleLog ''Capturing'', ConsoleLog ''Inlining resources'',
          SendMessage ''postProcessSVG'' (Some ''<svg/>''), ConsoleLog ''Pretty-printing SVG'',
          FormatXML ''<svg/>'', ConsoleLog ''SVG size after minification:'',
          ConsoleLog ''Copying to clipboard'', ClipboardWriteText ''<svg/>'']\<rparr>)
   \<and> session aborting_clipboard_env blank_page
     = (Normal (),
        blank_page\<lparr>trace := [ConsoleLog ''Capturing'', ConsoleLog ''Inlining resources'',
          SendMessage ''postProcessSVG'' (Some ''<svg/>''), ConsoleLog ''Pretty-printing SVG'',
          FormatXML ''<svg/>'', ConsoleLog ''SVG size after minification:'',
          ConsoleLog ''Copying to clipboard'', ClipboardWriteText ''<svg/>'']\<rparr>)
   \<and> Alert (alert_text ''The operation was aborted.'')
       \<notin> set (trace (snd (session aborting_clipboard_env blank_page)))
   \<and> ConsoleError (ErrorObject ''AbortError'' ''The operation was aborted.'')
       \<notin> set (trace (snd (session aborting_clipboard_env blank_page)))"
  by (simp add: run_defs aborting_clipboard_env_def)

lemma nullish_rejection_not_alerted:
  "session (viewport_env\<lparr>storage_get := Throw Nullish\<rparr>) blank_page
     = (Throw (TypeError ''Cannot read properties of undefined''),
        blank_page\<lparr>trace := [ConsoleLog ''Capturing'', ConsoleError Nullish]\<rparr>)"
  by (simp add: run_defs)

text \<open>
  C5. Either selector, once its selection has settled (resolved or been cancelled),
  leaves a document that does not contain its overlay element.
\<close>

theorem overlay_removed:
  "(fst (letUserSelectCaptureArea events w) \<noteq> Pending \<longrightarrow>
      AreaOverlay \<notin> set (body (snd (letUserSelectCaptureArea events w))))
   \<and> (fst (letUserSelectCaptureElement sc evs w) \<noteq> Pending \<longrightarrow>
      ElementOverlay \<notin> set (body (snd (letUserSelectCaptureElement sc evs w))))"
proof (intro conjI impI)
  assume "fst (letUserSelectCaptureArea events w) \<noteq> Pending"
  then show "AreaOverlay \<notin> set (body (snd (letUserSelectCaptureArea events w)))"
    by (cases "run_area new_area_selector events")
       (simp_all add: letUserSelectCaptureArea_def try_finally_def bind_io_def
          append_child_def await_def remove_node_def)
next
  assume "fst (letUserSelectCaptureElement sc evs w) \<noteq> Pending"
  then show "ElementOverlay \<notin> set (body (snd (letUserSelectCaptureElement sc evs w)))"
    by (cases "run_element sc new_highlight evs")
       (simp_all add: letUserSelectCaptureElement_def try_finally_def bind_io_def
          append_child_def await_def remove_node_def)
qed

theorem overlay_removed_witness:
  "fst (letUserSelectCaptureArea [MouseDown 1 1, KeyUp ''Escape''] blank_page)
     = Throw (AbortError ''Aborted with Escape'')
   \<and> AreaOverlay \<notin> set (body (snd (letUserSelectCaptureArea [MouseDown 1 1, KeyUp ''Escape'']
        blank_page)))
   \<and> fst (letUserSelectCaptureElement (0, 0)
        [ClickE (Some (Element ''red'' \<lparr>rect_x = 0, rect_y = 0, rect_width = 1, rect_height = 1\<rparr> None))]
        blank_page)
     = Normal (Element ''red'' \<lparr>rect_x = 0, rect_y = 0, rect_width = 1, rect_height = 1\<rparr> None)
   \<and> ElementOverlay \<notin> set (body (snd (letUserSelectCaptureElement (0, 0)
        [ClickE (Some (Element ''red'' \<lparr>rect_x = 0, rect_y = 0, rect_width = 1, rect_height = 1\<rparr> None))]
        blank_page)))"
  using overlay_removed [of "[MouseDown 1 1, KeyUp ''Escape'']" blank_page "(0, 0)"
    "[ClickE (Some (Element ''red'' \<lparr>rect_x = 0, rect_y = 0, rect_width = 1, rect_height = 1\<rparr> None))]"]
  by (simp add: run_defs)

section \<open>Background colour of an element capture\<close>

lemma realBackgroundColor_opaque:
  "\<not> transparent (backgroundColor el) \<Longrightarrow> realBackgroundColor el = backgroundColor el"
  by (induction el rule: realBackgroundColor.induct) (simp_all add: transparent_def)

lemma realBackgroundColor_nearest:
  "transparent (backgroundColor el) \<Longrightarrow>
   find (\<lambda>a. \<not> transparent (backgroundColor a)) (ancestors el) = Some a \<Longrightarrow>
   realBackgroundColor el = backgroundColor a"
proof (induction el rule: realBackgroundColor.induct)
  case (1 background r)
  then show ?case by simp
next
  case (2 background r parent)
  from "2.prems"(1) have tr: "background = ''rgba(0, 0, 0, 0)'' \<or> background = ''transparent''"
    by (simp add: transparent_def)
  show ?case
  proof (cases "transparent (backgroundColor parent)")
    case True
    with "2.prems"(2) have "find (\<lambda>a. \<not> transparent (backgroundColor a)) (ancestors parent) = Some a"
      by simp
    with "2.IH" tr True have "realBackgroundColor parent = backgroundColor a" by blast
    with tr show ?thesis by auto
  next
    case False
    with "2.prems"(2) have "a = parent" by simp
    with False tr show ?thesis by (auto simp: realBackgroundColor_opaque)
  qed
qed

text \<open>
  C7. In an element capture whose selected element has a transparent computed
  background, and whose nearest ancestor with a non-transparent computed background is
  \<open>a\<close>, the root \<open>svg\<close> element of the rendered document is given the background
  colour of \<open>a\<close>.
\<close>

theorem element_capture_background:
  assumes "transparent (backgroundColor el)"
    and "find (\<lambda>a. \<not> transparent (backgroundColor a)) (ancestors el) = Some a"
    and "elementToSVG e el (keepLinks settings) = Normal doc"
  shows "render e settings (Some el) captureArea w
           = (Normal (doc\<lparr>root_backgroundColor := backgroundColor a\<rparr>), w)"
  using assms(3) realBackgroundColor_nearest [OF assms(1,2)]
  by (simp add: render_def bind_io_def await_def ret_def)

theorem element_capture_background_witness:
  "transparent (backgroundColor clear_child)
   \<and> find (\<lambda>a. \<not> transparent (backgroundColor a)) (ancestors clear_child) = Some opaque_root
   \<and> elementToSVG viewport_env clear_child (keepLinks (applyDefaults no_settings)) = Normal rendered
   \<and> render viewport_env (applyDefaults no_settings) (Some clear_child) None blank_page
       = (Normal (rendered\<lparr>root_backgroundColor := ''rgb(1, 2, 3)''\<rparr>), blank_page)"
proof -
  have a: "transparent (backgroundColor clear_child)"
    by (simp add: clear_child_def transparent_def)
  have b: "find (\<lambda>a. \<not> transparent (backgroundColor a)) (ancestors clear_child) = Some opaque_root"
    by (simp add: clear_child_def opaque_root_def transparent_def)
  have c: "elementToSVG viewport_env clear_child (keepLinks (applyDefaults no_settings)) = Normal rendered"
    by (simp add: viewport_env_def)
  show ?thesis
    using element_capture_background [OF a b c, of None blank_page] a b c
    by (simp add: opaque_root_def)
qed

section \<open>Post-processing and export\<close>

lemma not_pretty_simps [simp]:
  "not_pretty (ConsoleLog s)" "not_pretty (SendMessage m p)" "not_pretty (MinifySvg s)"
  "not_pretty (SaveAs s n)" "not_pretty (ClipboardWriteText s)" "not_pretty (CreateObjectURL s)"
  "not_pretty (WindowOpen u t f)" "\<not> not_pretty (FormatXML s)"
  by (simp_all add: not_pretty_def)

lemma post_process_minify_not_pretty:
  "minifySvg settings = Some True \<Longrightarrow> emits_only not_pretty (post_process e settings s)"
  unfolding post_process_def
  by (intro emits_only_bind)
     (auto intro!: emits_only_bind emits_only_emit emits_only_await emits_only_ret
        emits_only_sendMessage)

lemma export_sink_not_pretty: "emits_only not_pretty (export_sink e settings s)"
  unfolding export_sink_def
  by (intro emits_only_bind)
     (auto intro!: emits_only_bind emits_only_emit emits_only_await emits_only_ret
        emits_only_throw)

lemma capture_body_minify_not_pretty:
  assumes "storage_get e = Normal s" and "minifySvg s = Some True"
  shows "emits_only not_pretty (capture_body e captureElement captureArea)"
proof -
  have "minifySvg (applyDefaults s) = Some True"
    using assms(2) by (simp add: applyDefaults_def)
  then show ?thesis
    unfolding capture_body_def using assms(1)
    by (intro emits_only_bind_await emits_only_bind emits_only_render export_sink_not_pretty)
       (simp add: post_process_minify_not_pretty)
qed

lemma capture_minify_not_pretty:
  assumes "storage_get e = Normal s" and "minifySvg s = Some True"
  shows "emits_only not_pretty (capture e area)"
  unfolding capture_def
  by (intro emits_only_bind emits_only_try_finally emits_only_set_cursor
        capture_body_minify_not_pretty [OF assms])
     (auto intro!: emits_only_bind emits_only_emit emits_only_ret
        emits_only_letUserSelectCaptureArea emits_only_letUserSelectCaptureElement)

text \<open>
  C3. When the stored settings have \<open>minifySvg\<close> true, a capture never calls the
  pretty-printer, whatever \<open>prettyPrintSvg\<close> is.
\<close>

theorem minify_excludes_pretty_printing:
  assumes "storage_get e = Normal s" and "minifySvg s = Some True"
  shows "FormatXML x \<notin> set (new_effects (capture e area) w)"
proof
  assume "FormatXML x \<in> set (new_effects (capture e area) w)"
  moreover have "list_all not_pretty (new_effects (capture e area) w)"
    by (rule emits_only_new_effects [OF capture_minify_not_pretty [OF assms]])
  ultimately have "not_pretty (FormatXML x)" by (auto simp: list_all_iff)
  then show False by simp
qed

theorem minify_excludes_pretty_printing_witness:
  "storage_get (viewport_env\<lparr>storage_get := Normal (no_settings\<lparr>minifySvg := Some True,
       prettyPrintSvg := Some True\<rparr>)\<rparr>)
     = Normal (no_settings\<lparr>minifySvg := Some True, prettyPrintSvg := Some True\<rparr>)
   \<and> minifySvg (no_settings\<lparr>minifySvg := Some True, prettyPrintSvg := Some True\<rparr>) = Some True
   \<and> FormatXML ''<svg/>'' \<notin> set (new_effects (capture (viewport_env\<lparr>storage_get :=
        Normal (no_settings\<lparr>minifySvg := Some True, prettyPrintSvg := Some True\<rparr>)\<rparr>)
        CaptureViewport) blank_page)"
  using minify_excludes_pretty_printing [of "viewport_env\<lparr>storage_get := Normal (no_settings\<lparr>minifySvg := Some True,
       prettyPrintSvg := Some True\<rparr>)\<rparr>" "no_settings\<lparr>minifySvg := Some True, prettyPrintSvg := Some True\<rparr>"
       "''<svg/>''" CaptureViewport blank_page]
  by simp

text \<open>
  C1. The export step is to perform one delivery chosen by the target: a file save
  named after the title for \<open>download\<close>, a new tab on an object URL for \<open>tab\<close>, a
  clipboard write for \<open>clipboard\<close>, an upload for \<open>upload-s3\<close>. The first three are
  the lemmas \<open>export_sink_download\<close>, \<open>export_sink_tab\<close> and
  \<open>export_sink_clipboard\<close> below. For the target \<open>upload-s3\<close> the content script
  has no branch: the export throws \<open>Unexpected SVG target upload-s3\<close> and delivers
  nothing, although \<open>upload-s3\<close> is a member of \<open>Target\<close> and the background page
  answers an \<open>upload-s3\<close> message with \<open>uploadToS3\<close>.
\<close>

theorem export_sink_upload_s3_throws:
  "export_sink e (settings\<lparr>target := Some UploadS3\<rparr>) svgString w
     = (Throw (Error ''Unexpected SVG target upload-s3''),
        w\<lparr>trace := trace w @ [ConsoleLog ''SVG size after minification:'']\<rparr>)"
  by (simp add: export_sink_def bind_io_def emit_def throw_def String_target_def)

lemma export_sink_download:
  "export_sink e (settings\<lparr>target := Some Download\<rparr>) svgString w
     = (Normal (), w\<lparr>trace := trace w @ [ConsoleLog ''SVG size after minification:'',
          ConsoleLog ''Downloading'',
          SaveAs svgString (filter (\<lambda>c. c \<notin> {CHR 0x22, CHR 0x27, CHR ''/''}) (title e)
            @ '' Screenshot.svg'')]\<rparr>)"
  by (simp add: export_sink_def bind_io_def emit_def screenshot_name_def)

lemma export_sink_clipboard:
  "export_sink e (settings\<lparr>target := Some Clipboard\<rparr>) svgString w
     = (writeText_result e svgString,
        w\<lparr>trace := trace w @ [ConsoleLog ''SVG size after minification:'',
          ConsoleLog ''Copying to clipboard'', ClipboardWriteText svgString]\<rparr>)"
  by (simp add: export_sink_def bind_io_def emit_def await_def)

lemma export_sink_tab:
  "export_sink e (settings\<lparr>target := Some Tab\<rparr>) svgString w
     = (Normal (), w\<lparr>trace := trace w @ [ConsoleLog ''SVG size after minification:'',
          ConsoleLog ''Opening in new tab'', CreateObjectURL svgString,
          WindowOpen (objectURL e svgString) ''_blank'' ''noopener'']\<rparr>)"
  by (simp add: export_sink_def bind_io_def emit_def)

lemma main_upload_s3_alerts:
  "main (viewport_env\<lparr>storage_get := Normal (no_settings\<lparr>target := Some UploadS3\<rparr>)\<rparr>) blank_page
     = (Normal (), blank_page\<lparr>trace :=
         [ConsoleLog ''Content script running'', SendMessage ''started'' None,
          ConsoleLog ''Capturing'', ConsoleLog ''Inlining resources'',
          SendMessage ''postProcessSVG'' (Some ''<svg/>''),
          ConsoleLog ''Pretty-printing SVG'', FormatXML ''<svg/>'',
          ConsoleLog ''SVG size after minification:'',
          ConsoleError (Error ''Unexpected SVG target upload-s3''),
          Alert (alert_text ''Unexpected SVG target upload-s3''),
          SendMessage ''finished'' None]\<rparr>)"
  by (simp add: run_defs)

section \<open>The area selector\<close>

lemma shift_needed_small: "a < 2 ^ 24 \<Longrightarrow> shift_needed a = 0"
  by (simp add: shift_needed.simps)



lemma float32_rounds_to_even: "float32 16777217 = 16777216"
proof -
  have "shift_needed 16777217 = Suc 0"
    by (subst shift_needed.simps) (simp add: shift_needed_small)
  then show ?thesis by (simp add: float32_def Let_def)
qed






section \<open>Upload and the options form\<close>




lemma href_keeps_credentials:
  "href (example_url\<lparr>url_username := ''user'', url_password := ''pw'',
      url_hostname := ''shots.s3.example.com'', url_pathname := ''/k.svg''\<rparr>)
     = ''https://user:pw@shots.s3.example.com/k.svg''"
  by (simp add: example_url_def href_def url_host_def url_credentials_def)

text \<open>
  C9, as the code has it. A change on an \<open>input\<close> element whose type is none of
  \<open>checkbox\<close>, \<open>radio\<close>, \<open>text\<close> makes the handler throw
  \<open>Unexpected form element\<close> with that type and store nothing; a change on a control
  that is not an \<open>input\<close> element is ignored: the handler returns and stores nothing.
\<close>

theorem on_change_unrecognized:
  "(ty \<noteq> ''checkbox'' \<and> ty \<noteq> ''radio'' \<and> ty \<noteq> ''text'' \<longrightarrow>
      on_change (HTMLInputElement ty name chk v) store
        = (Throw (Error (''Unexpected form element '' @ ty)), store))
   \<and> on_change (OtherControl cty cname cv) store = (Normal (), store)"
  by simp

theorem on_change_unrecognized_witness:
  "''number'' \<noteq> ''checkbox'' \<and> ''number'' \<noteq> ''radio'' \<and> ''number'' \<noteq> ''text''
   \<and> on_change (HTMLInputElement ''number'' ''s3Bucket'' False ''7'') Map.empty
        = (Throw (Error ''Unexpected form element number''), Map.empty)"
  using on_change_unrecognized [of "''number''" "''s3Bucket''" False "''7''" Map.empty]
  by simp

text \<open>
  C9 as stated fails for a control that is not an \<open>input\<close> element: a \<open>select\<close>
  has the type \<open>select-one\<close>, which is none of the recognized three, and the handler
  returns without an error.
\<close>

theorem on_change_select_counterexample:
  "''select-one'' \<noteq> ''checkbox'' \<and> ''select-one'' \<noteq> ''radio'' \<and> ''select-one'' \<noteq> ''text''
   \<and> on_change (OtherControl ''select-one'' ''target'' ''tab'') Map.empty = (Normal (), Map.empty)"
  by simp

end
